theory Spec2Isabelle
  imports Main "HOL-Library.Word"
begin

section \<open>Machine integers of the adapter\<close>

text \<open>
  The adapter mixes two integer types. The position of \<open>IteratorCore\<close> is a C++
  \<open>int\<close>, every offset is a \<open>std::ptrdiff_t\<close>. On the platforms the library is built
  for, \<open>int\<close> has 32 bits and \<open>std::ptrdiff_t\<close> has 64 bits, both two's complement:
  \<open>sint\<close> reads the value. Converting between the two is written out below.
  A conversion to \<open>int\<close> of a value that does not fit keeps the low 32 bits (the rule of
  C++20, and of every mainstream compiler before it). Signed overflow inside one
  type is written as wrap-around.
\<close>

type_synonym int_t = "32 word"
type_synonym ptrdiff_t = "64 word"
type_synonym uint64_t = "64 word"

text \<open>Integral promotion of an \<open>int\<close> operand that meets a \<open>std::ptrdiff_t\<close> operand.\<close>

definition int_to_ptrdiff :: "int_t \<Rightarrow> ptrdiff_t" where
  "int_to_ptrdiff c = word_of_int (sint c)"

text \<open>
  The implicit conversion at a call of \<open>IteratorCore(D *data, int current)\<close> with a
  \<open>std::ptrdiff_t\<close> argument, and at \<open>current_ += n\<close>.
\<close>

definition ptrdiff_to_int :: "ptrdiff_t \<Rightarrow> int_t" where
  "ptrdiff_to_int n = word_of_int (sint n)"

text \<open>
  The same conversion for the result of the host's \<open>Length()\<close>, a count of elements.
\<close>

definition length_to_int :: "nat \<Rightarrow> int_t" where
  "length_to_int n = word_of_int (int n)"

section \<open>\<open>iterable/iterator.h\<close>: \<open>Detail::IteratorCore\<close>\<close>

text \<open>
  \<open>IteratorCore<D, I>\<close> has two fields: \<open>D *data_\<close>, the non-owning pointer to the host,
  and \<open>int current_\<close>. They are the fields \<open>data\<close> and \<open>current\<close> here (a name of
  Isabelle cannot end with an underscore). The type \<open>'d\<close> stands for \<open>D *\<close>: the
  iterator only stores and copies it, the subscript of the host is the only operation
  that goes through it. The public \<open>Iterator<D, T>\<close> inherits its constructors and all its
  operations from \<open>IteratorCore\<close>; the tag \<open>Contiguous\<close> adds a conversion to a pointer to
  the element under C++20 and changes none of them.
\<close>

record 'd IteratorCore =
  data :: 'd
  current :: int_t

definition IteratorCore :: "'d \<Rightarrow> int_t \<Rightarrow> 'd IteratorCore" where
  "IteratorCore d c = \<lparr>data = d, current = c\<rparr>"

text \<open>
  A member function that changes \<open>*this\<close> and returns a reference to it is modelled
  by the new value of \<open>*this\<close>. The postfix forms return the copy made before the
  change, paired with the new value of \<open>*this\<close>.
\<close>

definition pre_inc :: "'d IteratorCore \<Rightarrow> 'd IteratorCore" where
  "pre_inc this = this\<lparr>current := current this + 1\<rparr>"

definition post_inc :: "'d IteratorCore \<Rightarrow> 'd IteratorCore \<times> 'd IteratorCore" where
  "post_inc this = (let temp = this in (temp, this\<lparr>current := current this + 1\<rparr>))"

definition pre_dec :: "'d IteratorCore \<Rightarrow> 'd IteratorCore" where
  "pre_dec this = this\<lparr>current := current this - 1\<rparr>"

definition post_dec :: "'d IteratorCore \<Rightarrow> 'd IteratorCore \<times> 'd IteratorCore" where
  "post_dec this = (let temp = this in (temp, this\<lparr>current := current this - 1\<rparr>))"

text \<open>The six comparisons read \<open>current_\<close> of both sides as signed integers.\<close>

definition op_eq :: "'d IteratorCore \<Rightarrow> 'd IteratorCore \<Rightarrow> bool" where
  "op_eq this other = (current this = current other)"

definition op_ne :: "'d IteratorCore \<Rightarrow> 'd IteratorCore \<Rightarrow> bool" where
  "op_ne this other = (current this \<noteq> current other)"

definition op_lt :: "'d IteratorCore \<Rightarrow> 'd IteratorCore \<Rightarrow> bool" where
  "op_lt this other = (current this <s current other)"

definition op_gt :: "'d IteratorCore \<Rightarrow> 'd IteratorCore \<Rightarrow> bool" where
  "op_gt this other = (current other <s current this)"

definition op_le :: "'d IteratorCore \<Rightarrow> 'd IteratorCore \<Rightarrow> bool" where
  "op_le this other = (current this \<le>s current other)"

definition op_ge :: "'d IteratorCore \<Rightarrow> 'd IteratorCore \<Rightarrow> bool" where
  "op_ge this other = (current other \<le>s current this)"

text \<open>
  \<open>operator+(std::ptrdiff_t n)\<close> computes \<open>current_ + n\<close> in \<open>std::ptrdiff_t\<close> and
  passes the sum to the constructor, whose parameter is an \<open>int\<close>.
\<close>

definition op_add :: "'d IteratorCore \<Rightarrow> ptrdiff_t \<Rightarrow> 'd IteratorCore" where
  "op_add this n = IteratorCore (data this) (ptrdiff_to_int (int_to_ptrdiff (current this) + n))"

definition op_sub :: "'d IteratorCore \<Rightarrow> ptrdiff_t \<Rightarrow> 'd IteratorCore" where
  "op_sub this n = IteratorCore (data this) (ptrdiff_to_int (int_to_ptrdiff (current this) - n))"

text \<open>
  \<open>operator-(const IteratorCore &other)\<close> subtracts two \<open>int\<close>s as \<open>int\<close> and converts
  the difference to the return type \<open>std::ptrdiff_t\<close>.
\<close>

definition op_diff :: "'d IteratorCore \<Rightarrow> 'd IteratorCore \<Rightarrow> ptrdiff_t" where
  "op_diff this other = int_to_ptrdiff (current this - current other)"

definition op_add_assign :: "'d IteratorCore \<Rightarrow> ptrdiff_t \<Rightarrow> 'd IteratorCore" where
  "op_add_assign this n =
     this\<lparr>current := ptrdiff_to_int (int_to_ptrdiff (current this) + n)\<rparr>"

definition op_sub_assign :: "'d IteratorCore \<Rightarrow> ptrdiff_t \<Rightarrow> 'd IteratorCore" where
  "op_sub_assign this n =
     this\<lparr>current := ptrdiff_to_int (int_to_ptrdiff (current this) - n)\<rparr>"

text \<open>The free function \<open>operator+(std::ptrdiff_t n, const IteratorCore &i)\<close>.\<close>

definition op_add_left :: "ptrdiff_t \<Rightarrow> 'd IteratorCore \<Rightarrow> 'd IteratorCore" where
  "op_add_left n i = op_add i n"

text \<open>
  The iterator \<open>i\<close> with the pointer \<open>f data_\<close> in place of \<open>data_\<close>, at the same position: it
  serves to state what an operation does with the pointer to the host.
\<close>

definition rebind :: "('d \<Rightarrow> 'e) \<Rightarrow> 'd IteratorCore \<Rightarrow> 'e IteratorCore" where
  "rebind f i = \<lparr>data = f (data i), current = current i\<rparr>"


subsection \<open>Access to the host\<close>

text \<open>
  \<open>This()\<close> yields a \<open>D *\<close> in a non-const member function and a \<open>const D *\<close> in a const
  one. The value \<open>'h\<close> identifies the host object (its address).
\<close>

datatype 'h pointer = Ptr 'h | ConstPtr 'h

fun pointee :: "'h pointer \<Rightarrow> 'h" where
  "pointee (Ptr h) = h"
| "pointee (ConstPtr h) = h"

text \<open>\<open>std::is_const_v<D>\<close> for the \<open>D\<close> of an \<open>IteratorCore<D, I>\<close> that stores a \<open>D *\<close>.\<close>

fun is_const :: "'h pointer \<Rightarrow> bool" where
  "is_const (Ptr h) = False"
| "is_const (ConstPtr h) = True"

text \<open>
  An lvalue reference to an element: \<open>Ref r\<close> is a \<open>Stored<D> &\<close> and \<open>ConstRef r\<close> a
  \<open>const Stored<D> &\<close> to the element at location \<open>r\<close>. Two references are the same
  reference when they name the same location.
\<close>

datatype 'r reference = Ref 'r | ConstRef 'r

fun target :: "'r reference \<Rightarrow> 'r" where
  "target (Ref r) = r"
| "target (ConstRef r) = r"

text \<open>
  \<open>Detail::HandledReturn<D> &\<close> bound to the element at \<open>r\<close>:
  \<open>std::conditional_t<std::is_const_v<D>, const Stored<D>, Stored<D>>\<close>.
\<close>

definition HandledReturn :: "'h pointer \<Rightarrow> 'r \<Rightarrow> 'r reference" where
  "HandledReturn d r = (if is_const d then ConstRef r else Ref r)"

text \<open>
  What the adapter needs of the host class \<open>D\<close>. \<open>subscript D p k\<close> is the location of the
  element that \<open>(*p)[k]\<close> refers to, where the constness of \<open>p\<close> selects the overload of
  \<open>D::operator[]\<close>; the host hands out a reference whose mutability matches that path.
  \<open>Length D h\<close> is the result of \<open>Length()\<close> on the host \<open>h\<close>, a count of elements, in
  whatever integer type the host declares for it (a \<open>std::size_t\<close>, say).
  \<open>member_data D\<close> is the member \<open>data_\<close> of a host when \<open>D\<close> declares an accessible one,
  and \<open>None\<close> otherwise: \<open>HasPubContainerS<D>::Value\<close> tells the two cases apart.
\<close>

record ('h, 'r, 'c) HostClass =
  member_data :: "('h \<Rightarrow> 'c) option"
  Length :: "'h \<Rightarrow> nat"
  subscript :: "'h pointer \<Rightarrow> int \<Rightarrow> 'r"

definition HasPubContainer :: "('h, 'r, 'c) HostClass \<Rightarrow> bool" where
  "HasPubContainer D = (case member_data D of None \<Rightarrow> False | Some handle \<Rightarrow> True)"

text \<open>\<open>operator*\<close>: \<open>return (*data_)[current_];\<close> with return type \<open>HandledReturn<D> &\<close>.\<close>

definition op_deref ::
  "('h, 'r, 'c) HostClass \<Rightarrow> 'h pointer IteratorCore \<Rightarrow> 'r reference" where
  "op_deref D this = HandledReturn (data this) (subscript D (data this) (sint (current this)))"

text \<open>
  \<open>operator->\<close>: \<open>return std::addressof(operator*());\<close>. A \<open>HandledReturn<D> *\<close> names a
  location with a constness, as a reference does.
\<close>

definition op_arrow ::
  "('h, 'r, 'c) HostClass \<Rightarrow> 'h pointer IteratorCore \<Rightarrow> 'r reference" where
  "op_arrow D this = op_deref D this"

text \<open>\<open>operator[]\<close>: \<open>return *(*this + n);\<close>.\<close>

definition op_subscript ::
  "('h, 'r, 'c) HostClass \<Rightarrow> 'h pointer IteratorCore \<Rightarrow> ptrdiff_t \<Rightarrow> 'r reference" where
  "op_subscript D this n = op_deref D (op_add this n)"

section \<open>\<open>iterable/iterable.h\<close>: the mixin \<open>For\<close>\<close>

text \<open>
  The member \<open>data_\<close> of a host is a container of the standard library. It is a list
  here, and its native iterator is an offset into it; \<open>readonly\<close> tells a
  \<open>const_iterator\<close>, which a const container hands out, from an \<open>iterator\<close>.
\<close>

record 'a NativeIterator =
  buffer :: "'a list"
  offset :: nat
  readonly :: bool

definition native_begin :: "bool \<Rightarrow> 'a list \<Rightarrow> 'a NativeIterator" where
  "native_begin c xs = \<lparr>buffer = xs, offset = 0, readonly = c\<rparr>"

definition native_end :: "bool \<Rightarrow> 'a list \<Rightarrow> 'a NativeIterator" where
  "native_end c xs = \<lparr>buffer = xs, offset = length xs, readonly = c\<rparr>"

text \<open>
  \<open>begin()\<close> and \<open>end()\<close> return \<open>auto\<close>: a native iterator of \<open>data_\<close> in the first branch
  of the \<open>if constexpr\<close>, an \<open>Iterator<D, T>\<close> in the second. \<open>Iterator<D, T>\<close> inherits
  its constructor and every operation from \<open>IteratorCore\<close>.
\<close>

datatype ('a, 'h) range_iterator =
  Native "'a NativeIterator"
| Synthesized "'h pointer IteratorCore"

definition For_begin :: "('h, 'r, 'a list) HostClass \<Rightarrow> 'h \<Rightarrow> ('a, 'h) range_iterator" where
  "For_begin D this =
     (case member_data D of
        Some handle \<Rightarrow> Native (native_begin False (handle this))
      | None \<Rightarrow> Synthesized (IteratorCore (Ptr this) 0))"

definition For_begin_const :: "('h, 'r, 'a list) HostClass \<Rightarrow> 'h \<Rightarrow> ('a, 'h) range_iterator" where
  "For_begin_const D this =
     (case member_data D of
        Some handle \<Rightarrow> Native (native_begin True (handle this))
      | None \<Rightarrow> Synthesized (IteratorCore (ConstPtr this) 0))"

definition For_cbegin :: "('h, 'r, 'a list) HostClass \<Rightarrow> 'h \<Rightarrow> ('a, 'h) range_iterator" where
  "For_cbegin D this = For_begin_const D this"

definition For_end :: "('h, 'r, 'a list) HostClass \<Rightarrow> 'h \<Rightarrow> ('a, 'h) range_iterator" where
  "For_end D this =
     (case member_data D of
        Some handle \<Rightarrow> Native (native_end False (handle this))
      | None \<Rightarrow> Synthesized (IteratorCore (Ptr this) (length_to_int (Length D this))))"

definition For_end_const :: "('h, 'r, 'a list) HostClass \<Rightarrow> 'h \<Rightarrow> ('a, 'h) range_iterator" where
  "For_end_const D this =
     (case member_data D of
        Some handle \<Rightarrow> Native (native_end True (handle this))
      | None \<Rightarrow> Synthesized (IteratorCore (ConstPtr this) (length_to_int (Length D this))))"

definition For_cend :: "('h, 'r, 'a list) HostClass \<Rightarrow> 'h \<Rightarrow> ('a, 'h) range_iterator" where
  "For_cend D this = For_end_const D this"


subsection \<open>The range-based \<open>for\<close> over a host\<close>

text \<open>
  \<open>for (auto &x : host)\<close> is \<open>for (auto it = host.begin(); it != host.end(); ++it)\<close>
  with \<open>x\<close> bound to \<open>*it\<close>. With synthesized iterators the loop uses \<open>operator!=\<close>,
  \<open>operator*\<close> and the prefix \<open>operator++\<close> of \<open>IteratorCore\<close>; it yields the references
  it visits, in order.
\<close>

function core_range ::
  "('h, 'r, 'c) HostClass \<Rightarrow> 'h pointer IteratorCore \<Rightarrow> 'h pointer IteratorCore
     \<Rightarrow> 'r reference list" where
  "core_range D it e =
     (if op_ne it e then op_deref D it # core_range D (pre_inc it) e else [])"
  by pat_completeness auto
termination
proof (relation "measure (\<lambda>(D, it, e). unat (current e - current it))")
  show "wf (measure (\<lambda>(D, it, e). unat (current e - current it)))"
    by simp
next
  fix D :: "('h, 'r, 'c) HostClass" and it e :: "'h pointer IteratorCore"
  assume "op_ne it e"
  then have "current e - current it \<noteq> 0"
    by (simp add: op_ne_def)
  then have "unat (current e - current it - 1) < unat (current e - current it)"
    by (simp add: unat_minus_one unat_gt_0)
  moreover have "current e - current (pre_inc it) = current e - current it - 1"
    by (simp add: pre_inc_def)
  ultimately have "unat (current e - current (pre_inc it)) < unat (current e - current it)"
    by (simp only:)
  then show "((D, pre_inc it, e), (D, it, e))
      \<in> measure (\<lambda>(D, it, e). unat (current e - current it))"
    by (simp only: in_measure split_conv)
qed

declare core_range.simps [simp del]

text \<open>
  With the native iterators of a standard container the loop visits the elements of
  the buffer from the offset of the first iterator up to the offset of the second.
\<close>

definition native_range :: "'a NativeIterator \<Rightarrow> 'a NativeIterator \<Rightarrow> 'a list" where
  "native_range b e = map (\<lambda>k. buffer b ! k) [offset b ..< min (offset e) (length (buffer b))]"

text \<open>
  A program that goes wrong: an ill-formed one, which the compiler rejects (an
  assignment through a reference to const, a loop over two iterators of different
  types), and an access to an element that the host does not have, which is undefined.
\<close>

datatype failure = Ill_formed | Out_of_range

text \<open>
  The values a range-based \<open>for\<close> reads between two iterators that \<open>begin()\<close> and
  \<open>end()\<close> of one host returned. \<open>fetch r\<close> reads the element at location \<open>r\<close> of the
  memory; the loop stops at the first read that goes wrong.
\<close>

fun fetch_all :: "('r \<Rightarrow> failure + 'a) \<Rightarrow> 'r reference list \<Rightarrow> failure + 'a list" where
  "fetch_all fetch [] = Inr []"
| "fetch_all fetch (x # xs) =
     (case fetch (target x) of
        Inl f \<Rightarrow> Inl f
      | Inr v \<Rightarrow> (case fetch_all fetch xs of Inl f \<Rightarrow> Inl f | Inr vs \<Rightarrow> Inr (v # vs)))"

fun range_for ::
  "('h, 'r, 'c) HostClass \<Rightarrow> ('r \<Rightarrow> failure + 'a) \<Rightarrow> ('a, 'h) range_iterator
     \<Rightarrow> ('a, 'h) range_iterator \<Rightarrow> failure + 'a list" where
  "range_for D fetch (Native b) (Native e) = Inr (native_range b e)"
| "range_for D fetch (Synthesized b) (Synthesized e) = fetch_all fetch (core_range D b e)"
| "range_for D fetch (Native b) (Synthesized e) = Inl Ill_formed"
| "range_for D fetch (Synthesized b) (Native e) = Inl Ill_formed"

section \<open>\<open>iterable.h\<close>: the older mixin \<open>Iterable<D>\<close> and its \<open>Iterator\<close>\<close>

text \<open>
  \<open>Iterable<D>::Iterator<S>\<close> stores \<open>Self &self_\<close> and \<open>std::uint64_t current_\<close>, the
  fields \<open>self\<close> and \<open>current64\<close> here. The mixin only builds \<open>Iterator<Derived>\<close>, so
  \<open>self_\<close> is a \<open>Derived &\<close>, and \<open>Derived\<close> is the host class itself, not const. Adding
  a \<open>std::ptrdiff_t\<close> to \<open>current_\<close> converts it to \<open>std::uint64_t\<close>, which keeps its 64
  bits, and adds modulo \<open>2 ^ 64\<close>.
\<close>

record 'h Iterator =
  self :: 'h
  current64 :: uint64_t

text \<open>
  The constructor is \<open>explicit Iterator(Self &self, std::uint64_t current)\<close>. A
  \<open>const Derived &\<close> does not bind to its first parameter: such a call is ill-formed,
  the compiler rejects it, and no iterator comes out (\<open>None\<close>).
\<close>

definition Iterator :: "'h pointer \<Rightarrow> uint64_t \<Rightarrow> 'h Iterator option" where
  "Iterator p c =
     (case p of Ptr h \<Rightarrow> Some \<lparr>self = h, current64 = c\<rparr> | ConstPtr h \<Rightarrow> None)"

text \<open>
  \<open>operator*\<close> and \<open>operator[]\<close> return \<open>decltype(auto)\<close>: the reference that the
  non-const \<open>operator[]\<close> of the host returns, for the unsigned index they pass.
\<close>

definition Iterator_deref :: "('h, 'r, 'c) HostClass \<Rightarrow> 'h Iterator \<Rightarrow> 'r reference" where
  "Iterator_deref D this = Ref (subscript D (Ptr (self this)) (uint (current64 this)))"

definition Iterator_pre_inc :: "'h Iterator \<Rightarrow> 'h Iterator" where
  "Iterator_pre_inc this = this\<lparr>current64 := current64 this + 1\<rparr>"

definition Iterator_post_inc :: "'h Iterator \<Rightarrow> 'h Iterator \<times> 'h Iterator" where
  "Iterator_post_inc this = (let temp = this in (temp, Iterator_pre_inc this))"

definition Iterator_pre_dec :: "'h Iterator \<Rightarrow> 'h Iterator" where
  "Iterator_pre_dec this = this\<lparr>current64 := current64 this - 1\<rparr>"

definition Iterator_post_dec :: "'h Iterator \<Rightarrow> 'h Iterator \<times> 'h Iterator" where
  "Iterator_post_dec this = (let temp = this in (temp, Iterator_pre_dec this))"

definition Iterator_add :: "'h Iterator \<Rightarrow> ptrdiff_t \<Rightarrow> 'h Iterator" where
  "Iterator_add this v = \<lparr>self = self this, current64 = current64 this + v\<rparr>"

definition Iterator_sub :: "'h Iterator \<Rightarrow> ptrdiff_t \<Rightarrow> 'h Iterator" where
  "Iterator_sub this v = \<lparr>self = self this, current64 = current64 this - v\<rparr>"

definition Iterator_add_assign :: "'h Iterator \<Rightarrow> ptrdiff_t \<Rightarrow> 'h Iterator" where
  "Iterator_add_assign this v = this\<lparr>current64 := current64 this + v\<rparr>"

definition Iterator_sub_assign :: "'h Iterator \<Rightarrow> ptrdiff_t \<Rightarrow> 'h Iterator" where
  "Iterator_sub_assign this v = this\<lparr>current64 := current64 this - v\<rparr>"

definition Iterator_subscript ::
  "('h, 'r, 'c) HostClass \<Rightarrow> 'h Iterator \<Rightarrow> ptrdiff_t \<Rightarrow> 'r reference" where
  "Iterator_subscript D this index =
     Ref (subscript D (Ptr (self this)) (uint (current64 this + index)))"

definition Iterator_eq :: "'h Iterator \<Rightarrow> 'h Iterator \<Rightarrow> bool" where
  "Iterator_eq this other = (current64 this = current64 other)"

definition Iterator_ne :: "'h Iterator \<Rightarrow> 'h Iterator \<Rightarrow> bool" where
  "Iterator_ne this other = (\<not> Iterator_eq this other)"

definition Iterator_gt :: "'h Iterator \<Rightarrow> 'h Iterator \<Rightarrow> bool" where
  "Iterator_gt this other = (current64 this > current64 other)"

definition Iterator_lt :: "'h Iterator \<Rightarrow> 'h Iterator \<Rightarrow> bool" where
  "Iterator_lt this other = (current64 this < current64 other)"

definition Iterator_ge :: "'h Iterator \<Rightarrow> 'h Iterator \<Rightarrow> bool" where
  "Iterator_ge this other = (\<not> Iterator_lt this other)"

definition Iterator_le :: "'h Iterator \<Rightarrow> 'h Iterator \<Rightarrow> bool" where
  "Iterator_le this other = (\<not> Iterator_gt this other)"




definition Iterable_end :: "('h \<Rightarrow> nat) \<Rightarrow> 'h \<Rightarrow> 'h Iterator option" where
  "Iterable_end GetLength this = Iterator (Ptr this) (word_of_nat (GetLength this))"



section \<open>A host to run the adapter on\<close>

text \<open>
  Modelled from the spec: the host of the scenarios S1 to S5, whose class is not part
  of the library. It keeps its elements in a vector and grants indexed access to them
  on both paths. A store maps the address of each host to its elements; the location
  of an element is the address of its host and its index.
\<close>

type_synonym store = "nat \<Rightarrow> int list"
type_synonym location = "nat \<times> int"

definition TestHost :: "store \<Rightarrow> (nat, location, int list) HostClass" where
  "TestHost \<sigma> =
     \<lparr>member_data = None,
      Length = (\<lambda>h. length (\<sigma> h)),
      subscript = (\<lambda>p k. (pointee p, k))\<rparr>"

text \<open>
  Modelled from the spec: the host of scenario S6, which declares its vector as the
  public member \<open>data_\<close>.
\<close>

definition DelegatingHost :: "store \<Rightarrow> (nat, location, int list) HostClass" where
  "DelegatingHost \<sigma> =
     \<lparr>member_data = Some \<sigma>,
      Length = (\<lambda>h. length (\<sigma> h)),
      subscript = (\<lambda>p k. (pointee p, k))\<rparr>"

text \<open>
  A host that keeps a buffer as its public member \<open>data_\<close> and counts only the first
  \<open>n\<close> elements of it as its own: \<open>Length()\<close> is \<open>n\<close>, \<open>operator[]\<close> indexes the buffer. A
  vector of fixed capacity is such a host.
\<close>

definition PrefixHost :: "nat \<Rightarrow> store \<Rightarrow> (nat, location, int list) HostClass" where
  "PrefixHost n \<sigma> =
     \<lparr>member_data = Some \<sigma>,
      Length = (\<lambda>h. n),
      subscript = (\<lambda>p k. (pointee p, k))\<rparr>"

text \<open>
  The host class \<open>D\<close> with its member \<open>data_\<close> out of reach of the mixin (not declared, or
  private), so that \<open>begin()\<close> and \<open>end()\<close> synthesize their iterators.
\<close>

definition synthesizing :: "('h, 'r, 'c) HostClass \<Rightarrow> ('h, 'r, 'c) HostClass" where
  "synthesizing D = D\<lparr>member_data := None\<rparr>"

text \<open>
  A store whose host at address \<open>a\<close> holds the elements \<open>xs\<close> (every other host is empty),
  and a store in which every host holds \<open>n\<close> copies of \<open>v\<close>.
\<close>

definition single :: "nat \<Rightarrow> int list \<Rightarrow> store" where
  "single a xs h = (if h = a then xs else [])"

definition fill :: "nat \<Rightarrow> int \<Rightarrow> store" where
  "fill n v h = replicate n v"

text \<open>
  Reading and writing an element through a reference. An assignment through a
  reference to const is ill-formed; an access outside the vector is undefined.
\<close>

definition load :: "store \<Rightarrow> location \<Rightarrow> failure + int" where
  "load \<sigma> l =
     (case l of (h, k) \<Rightarrow>
        if 0 \<le> k \<and> k < int (length (\<sigma> h)) then Inr (\<sigma> h ! nat k) else Inl Out_of_range)"



section \<open>Conversions between \<open>int\<close> and \<open>std::ptrdiff_t\<close>\<close>

lemma narrow_wi: "(word_of_int (sint (w :: 64 word)) :: 32 word) = word_of_int (uint w)"
  by (simp only: word_of_int_eq_iff sint_uint) (simp add: take_bit_signed_take_bit)

lemma ptrdiff_to_int_alt: "ptrdiff_to_int n = word_of_int (uint n)"
  unfolding ptrdiff_to_int_def by (rule narrow_wi)

lemma narrow_add: "(word_of_int (uint (a + b :: 64 word)) :: 32 word) = word_of_int (uint a + uint b)"
  by (simp only: uint_word_ariths word_of_int_eq_iff) (simp add: take_bit_eq_mod mod_mod_cancel)

lemma narrow_diff: "(word_of_int (uint (a - b :: 64 word)) :: 32 word) = word_of_int (uint a - uint b)"
  by (simp only: uint_word_ariths word_of_int_eq_iff) (simp add: take_bit_eq_mod mod_mod_cancel)

lemma ptrdiff_to_int_add: "ptrdiff_to_int (a + b) = ptrdiff_to_int a + ptrdiff_to_int b"
  unfolding ptrdiff_to_int_alt by (simp only: narrow_add wi_hom_add)

lemma ptrdiff_to_int_diff: "ptrdiff_to_int (a - b) = ptrdiff_to_int a - ptrdiff_to_int b"
  unfolding ptrdiff_to_int_alt by (simp only: narrow_diff wi_hom_sub)

lemma sint_int_to_ptrdiff: "sint (int_to_ptrdiff c) = sint c"
  unfolding int_to_ptrdiff_def
  by (simp add: sint_up_scast is_up)

lemma ptrdiff_to_int_widen: "ptrdiff_to_int (int_to_ptrdiff c) = c"
  unfolding ptrdiff_to_int_def by (simp only: sint_int_to_ptrdiff) simp

lemma sint_ptrdiff_to_int_gen: "sint (ptrdiff_to_int n) = signed_take_bit 31 (sint n)"
  unfolding ptrdiff_to_int_def by (simp only: sint_sbintrunc') simp

lemma sint_ptrdiff_to_int:
  "- (2 ^ 31) \<le> sint n \<Longrightarrow> sint n < 2 ^ 31 \<Longrightarrow> sint (ptrdiff_to_int n) = sint n"
  unfolding ptrdiff_to_int_def
  by (simp only: sint_sbintrunc') (simp add: signed_take_bit_int_eq_self)

lemma int_to_ptrdiff_narrow:
  "- (2 ^ 31) \<le> sint n \<Longrightarrow> sint n < 2 ^ 31 \<Longrightarrow> int_to_ptrdiff (ptrdiff_to_int n) = n"
  unfolding int_to_ptrdiff_def by (simp only: sint_ptrdiff_to_int) simp

lemma sint_length_to_int: "n < 2 ^ 31 \<Longrightarrow> sint (length_to_int n) = int n"
  unfolding length_to_int_def
  by (simp only: sint_sbintrunc') (simp add: signed_take_bit_int_eq_self)

section \<open>Positions after arithmetic\<close>

lemma current_op_add: "current (op_add i k) = current i + ptrdiff_to_int k"
  by (simp add: op_add_def IteratorCore_def ptrdiff_to_int_add ptrdiff_to_int_widen)

lemma current_op_sub: "current (op_sub i k) = current i - ptrdiff_to_int k"
  by (simp add: op_sub_def IteratorCore_def ptrdiff_to_int_diff ptrdiff_to_int_widen)

lemma data_op_add: "data (op_add i k) = data i"
  by (simp add: op_add_def IteratorCore_def)

lemma data_op_sub: "data (op_sub i k) = data i"
  by (simp add: op_sub_def IteratorCore_def)

lemma sint_signed_sum: "sint (a + b :: 32 word) = signed_take_bit 31 (sint a + sint b)"
  by (simp add: sint_word_ariths)

lemma stb_stb_add: "signed_take_bit 31 (sint (c::32 word) + signed_take_bit 31 (x::int)) = signed_take_bit 31 (sint c + x)"
  by (metis signed_take_bit_add signed_take_bit_signed_take_bit min.idem)

lemma sint_current_op_add:
  "sint (current (op_add i k)) = signed_take_bit 31 (sint (current i) + sint k)"
  by (simp only: current_op_add sint_signed_sum sint_ptrdiff_to_int_gen stb_stb_add)


section \<open>Increment and decrement\<close>

lemma sint_succ: "sint (w :: 32 word) < 2 ^ 31 - 1 \<Longrightarrow> sint (w + 1) = sint w + 1"
proof -
  assume a: "sint w < 2 ^ 31 - 1"
  have b: "- (2 ^ 31) \<le> sint w"
    using sint_ge [of w] by simp
  have "sint (w + 1) = signed_take_bit 31 (sint w + 1)"
    by (simp add: sint_word_ariths)
  also have "\<dots> = sint w + 1"
    using a b by (simp add: signed_take_bit_int_eq_self)
  finally show ?thesis .
qed

lemma sint_pred: "- (2 ^ 31) < sint (w :: 32 word) \<Longrightarrow> sint (w - 1) = sint w - 1"
proof -
  assume a: "- (2 ^ 31) < sint w"
  have b: "sint w < 2 ^ 31"
    using sint_lt [of w] by simp
  have "sint (w - 1) = signed_take_bit 31 (sint w - 1)"
    by (simp add: sint_word_ariths)
  also have "\<dots> = sint w - 1"
    using a b by (simp add: signed_take_bit_int_eq_self)
  finally show ?thesis .
qed

text \<open>
  Claim C8. For every iterator, a prefix increment followed by a prefix decrement
  leaves it at its original position, and so do the postfix forms (and the decrement
  followed by the increment). Each increment adds exactly one to the stored position
  and each decrement subtracts exactly one, in the arithmetic of \<open>int\<close>; the postfix
  forms return an iterator equal to the original one. Read as integers, the position
  goes up by one unless it was the largest \<open>int\<close> and down by one unless it was the
  smallest: there the C++ operation overflows, which is undefined, and the model wraps
  around (the round trip holds there, too).
\<close>

theorem inc_dec_round_trip:
  "pre_dec (pre_inc i) = i
   \<and> snd (post_dec (snd (post_inc i))) = i
   \<and> pre_inc (pre_dec i) = i
   \<and> snd (post_inc (snd (post_dec i))) = i
   \<and> current (pre_inc i) = current i + 1
   \<and> current (snd (post_inc i)) = current i + 1
   \<and> current (pre_dec i) = current i - 1
   \<and> current (snd (post_dec i)) = current i - 1
   \<and> fst (post_inc i) = i
   \<and> fst (post_dec i) = i
   \<and> (sint (current i) < 2 ^ 31 - 1 \<longrightarrow>
        sint (current (pre_inc i)) = sint (current i) + 1
        \<and> sint (current (snd (post_inc i))) = sint (current i) + 1)
   \<and> (- (2 ^ 31) < sint (current i) \<longrightarrow>
        sint (current (pre_dec i)) = sint (current i) - 1
        \<and> sint (current (snd (post_dec i))) = sint (current i) - 1)"
  by (simp add: pre_inc_def pre_dec_def post_inc_def post_dec_def sint_succ sint_pred)

theorem inc_dec_round_trip_witness:
  "pre_dec (pre_inc (IteratorCore (Ptr (0::nat)) 7)) = IteratorCore (Ptr 0) 7
   \<and> sint (current (IteratorCore (Ptr (0::nat)) 7)) < 2 ^ 31 - 1
   \<and> sint (current (pre_inc (IteratorCore (Ptr (0::nat)) 7))) = 8
   \<and> - (2 ^ 31) < sint (current (IteratorCore (Ptr (0::nat)) 7))
   \<and> sint (current (pre_dec (IteratorCore (Ptr (0::nat)) 7))) = 6"
  using inc_dec_round_trip [of "IteratorCore (Ptr (0::nat)) 7"]
  by (simp add: IteratorCore_def)


section \<open>Comparisons\<close>

lemma core_compare:
  "op_lt i j \<longleftrightarrow> sint (current i) < sint (current j)"
  "op_eq i j \<longleftrightarrow> sint (current i) = sint (current j)"
  "op_gt i j \<longleftrightarrow> sint (current j) < sint (current i)"
  "op_ne i j \<longleftrightarrow> sint (current i) \<noteq> sint (current j)"
  "op_le i j \<longleftrightarrow> sint (current i) \<le> sint (current j)"
  "op_ge i j \<longleftrightarrow> sint (current j) \<le> sint (current i)"
  by (simp_all add: op_lt_def op_eq_def op_gt_def op_ne_def op_le_def op_ge_def
      word_sless_alt word_sle_eq word_eq_iff_signed [where ?'a = int])

lemma core_trichotomy:
  "of_bool (op_lt i j) + of_bool (op_eq i j) + of_bool (op_gt i j) = (1::nat)"
proof -
  consider "sint (current i) < sint (current j)" | "sint (current i) = sint (current j)"
    | "sint (current j) < sint (current i)"
    by linarith
  then show ?thesis
    by cases (simp_all add: core_compare)
qed

lemma core_compare_data:
  "op_lt (i\<lparr>data := a\<rparr>) (j\<lparr>data := b\<rparr>) = op_lt i j"
  "op_eq (i\<lparr>data := a\<rparr>) (j\<lparr>data := b\<rparr>) = op_eq i j"
  "op_gt (i\<lparr>data := a\<rparr>) (j\<lparr>data := b\<rparr>) = op_gt i j"
  "op_ne (i\<lparr>data := a\<rparr>) (j\<lparr>data := b\<rparr>) = op_ne i j"
  "op_le (i\<lparr>data := a\<rparr>) (j\<lparr>data := b\<rparr>) = op_le i j"
  "op_ge (i\<lparr>data := a\<rparr>) (j\<lparr>data := b\<rparr>) = op_ge i j"
  by (simp_all add: op_lt_def op_eq_def op_gt_def op_ne_def op_le_def op_ge_def)

lemma legacy_compare:
  "Iterator_lt u v \<longleftrightarrow> uint (current64 u) < uint (current64 v)"
  "Iterator_eq u v \<longleftrightarrow> uint (current64 u) = uint (current64 v)"
  "Iterator_gt u v \<longleftrightarrow> uint (current64 v) < uint (current64 u)"
  "Iterator_ne u v \<longleftrightarrow> uint (current64 u) \<noteq> uint (current64 v)"
  "Iterator_le u v \<longleftrightarrow> uint (current64 u) \<le> uint (current64 v)"
  "Iterator_ge u v \<longleftrightarrow> uint (current64 v) \<le> uint (current64 u)"
  by (auto simp add: Iterator_lt_def Iterator_eq_def Iterator_gt_def Iterator_ne_def
      Iterator_le_def Iterator_ge_def word_less_def word_le_def word_uint_eq_iff)

lemma legacy_trichotomy:
  "of_bool (Iterator_lt u v) + of_bool (Iterator_eq u v) + of_bool (Iterator_gt u v) = (1::nat)"
proof -
  consider "uint (current64 u) < uint (current64 v)" | "uint (current64 u) = uint (current64 v)"
    | "uint (current64 v) < uint (current64 u)"
    by linarith
  then show ?thesis
    by cases (simp_all add: legacy_compare)
qed

lemma legacy_compare_self:
  "Iterator_lt (u\<lparr>self := a\<rparr>) (v\<lparr>self := b\<rparr>) = Iterator_lt u v"
  "Iterator_eq (u\<lparr>self := a\<rparr>) (v\<lparr>self := b\<rparr>) = Iterator_eq u v"
  "Iterator_gt (u\<lparr>self := a\<rparr>) (v\<lparr>self := b\<rparr>) = Iterator_gt u v"
  by (simp_all add: Iterator_lt_def Iterator_eq_def Iterator_gt_def)

text \<open>
  Claim C5. For two iterators \<open>i\<close> and \<open>j\<close>, exactly one of \<open>i < j\<close>, \<open>i == j\<close>, \<open>i > j\<close>
  holds; each comparison agrees with the comparison of the stored positions (signed
  for \<open>IteratorCore\<close>, unsigned for the \<open>Iterator\<close> of \<open>Iterable\<close>); \<open>i == j\<close> holds if and
  only if the positions are the same; and no comparison depends on the reference to the
  host: replacing it in either iterator leaves every outcome as it was.
\<close>

theorem ordering_by_position:
  "(op_lt i j \<longleftrightarrow> sint (current i) < sint (current j))
   \<and> (op_eq i j \<longleftrightarrow> sint (current i) = sint (current j))
   \<and> (op_gt i j \<longleftrightarrow> sint (current i) > sint (current j))
   \<and> of_bool (op_lt i j) + of_bool (op_eq i j) + of_bool (op_gt i j) = (1::nat)
   \<and> (op_eq i j \<longleftrightarrow> current i = current j)
   \<and> (op_ne i j \<longleftrightarrow> sint (current i) \<noteq> sint (current j))
   \<and> (op_le i j \<longleftrightarrow> sint (current i) \<le> sint (current j))
   \<and> (op_ge i j \<longleftrightarrow> sint (current i) \<ge> sint (current j))
   \<and> op_lt (i\<lparr>data := a\<rparr>) (j\<lparr>data := b\<rparr>) = op_lt i j
   \<and> op_eq (i\<lparr>data := a\<rparr>) (j\<lparr>data := b\<rparr>) = op_eq i j
   \<and> op_gt (i\<lparr>data := a\<rparr>) (j\<lparr>data := b\<rparr>) = op_gt i j
   \<and> op_ne (i\<lparr>data := a\<rparr>) (j\<lparr>data := b\<rparr>) = op_ne i j
   \<and> op_le (i\<lparr>data := a\<rparr>) (j\<lparr>data := b\<rparr>) = op_le i j
   \<and> op_ge (i\<lparr>data := a\<rparr>) (j\<lparr>data := b\<rparr>) = op_ge i j
   \<and> (Iterator_lt u v \<longleftrightarrow> uint (current64 u) < uint (current64 v))
   \<and> (Iterator_eq u v \<longleftrightarrow> uint (current64 u) = uint (current64 v))
   \<and> (Iterator_gt u v \<longleftrightarrow> uint (current64 u) > uint (current64 v))
   \<and> of_bool (Iterator_lt u v) + of_bool (Iterator_eq u v) + of_bool (Iterator_gt u v) = (1::nat)
   \<and> (Iterator_eq u v \<longleftrightarrow> current64 u = current64 v)
   \<and> (Iterator_ne u v \<longleftrightarrow> uint (current64 u) \<noteq> uint (current64 v))
   \<and> (Iterator_le u v \<longleftrightarrow> uint (current64 u) \<le> uint (current64 v))
   \<and> (Iterator_ge u v \<longleftrightarrow> uint (current64 u) \<ge> uint (current64 v))
   \<and> Iterator_lt (u\<lparr>self := a'\<rparr>) (v\<lparr>self := b'\<rparr>) = Iterator_lt u v
   \<and> Iterator_eq (u\<lparr>self := a'\<rparr>) (v\<lparr>self := b'\<rparr>) = Iterator_eq u v
   \<and> Iterator_gt (u\<lparr>self := a'\<rparr>) (v\<lparr>self := b'\<rparr>) = Iterator_gt u v"
  by (intro conjI)
    (rule core_compare core_trichotomy core_compare_data legacy_compare legacy_trichotomy
      legacy_compare_self op_eq_def Iterator_eq_def)+


section \<open>The iterators of \<open>begin()\<close> and \<open>end()\<close>\<close>

lemma For_synthesized:
  assumes "member_data D = None"
  shows "For_begin D h = Synthesized (IteratorCore (Ptr h) 0)"
    and "For_end D h = Synthesized (IteratorCore (Ptr h) (length_to_int (Length D h)))"
    and "For_begin_const D h = Synthesized (IteratorCore (ConstPtr h) 0)"
    and "For_end_const D h = Synthesized (IteratorCore (ConstPtr h) (length_to_int (Length D h)))"
  using assms by (simp_all add: For_begin_def For_end_def For_begin_const_def For_end_const_def)

lemma For_begin_SynthesizedD:
  "For_begin D h = Synthesized b \<Longrightarrow> b = IteratorCore (Ptr h) 0"
  by (simp add: For_begin_def split: option.splits)

lemma For_end_SynthesizedD:
  "For_end D h = Synthesized e \<Longrightarrow> e = IteratorCore (Ptr h) (length_to_int (Length D h))"
  by (simp add: For_end_def split: option.splits)

lemma For_begin_const_SynthesizedD:
  "For_begin_const D h = Synthesized b \<Longrightarrow> b = IteratorCore (ConstPtr h) 0"
  by (simp add: For_begin_const_def split: option.splits)


lemma sint_length_to_int_gen: "sint (length_to_int n) = signed_take_bit 31 (int n)"
  unfolding length_to_int_def by (simp only: sint_sbintrunc') simp

lemma sint_op_diff: "sint (op_diff a b) = sint (current a - current b)"
  by (simp add: op_diff_def sint_int_to_ptrdiff)

lemma length_to_int_eq_0: "n < 2 ^ 31 \<Longrightarrow> length_to_int n = 0 \<longleftrightarrow> n = 0"
proof -
  assume "n < 2 ^ 31"
  then have "sint (length_to_int n) = int n"
    by (rule sint_length_to_int)
  then show ?thesis
    by (auto simp add: length_to_int_def)
qed

text \<open>
  Claim C1, as amended. For every host of length \<open>n\<close> with \<open>n < 2 ^ 31\<close> (a length that
  an \<open>int\<close> holds) whose iterators are synthesized, \<open>begin()\<close> is an iterator at position
  \<open>0\<close>, \<open>end()\<close> is an iterator at position \<open>n\<close>, and \<open>end() - begin()\<close> is \<open>n\<close>; the two
  compare equal exactly when the host is empty; both point to the host.
\<close>

theorem begin_end_positions:
  assumes "Length D h < 2 ^ 31"
    and "For_begin D h = Synthesized b"
    and "For_end D h = Synthesized e"
  shows "sint (current b) = 0
    \<and> sint (current e) = int (Length D h)
    \<and> sint (op_diff e b) = int (Length D h)
    \<and> (op_eq b e \<longleftrightarrow> Length D h = 0)
    \<and> data b = Ptr h \<and> data e = Ptr h"
proof -
  have b: "b = IteratorCore (Ptr h) 0"
    using assms(2) by (rule For_begin_SynthesizedD)
  have e: "e = IteratorCore (Ptr h) (length_to_int (Length D h))"
    using assms(3) by (rule For_end_SynthesizedD)
  have n: "sint (length_to_int (Length D h)) = int (Length D h)"
    using assms(1) by (rule sint_length_to_int)
  have z: "length_to_int (Length D h) = 0 \<longleftrightarrow> Length D h = 0"
    using assms(1) by (rule length_to_int_eq_0)
  show ?thesis
    using n z by (auto simp add: b e IteratorCore_def sint_op_diff op_eq_def)
qed

theorem begin_end_positions_witness:
  "Length (TestHost (fill 4 0)) 7 < 2 ^ 31
   \<and> For_begin (TestHost (fill 4 0)) 7 = Synthesized (IteratorCore (Ptr 7) 0)
   \<and> For_end (TestHost (fill 4 0)) 7 = Synthesized (IteratorCore (Ptr 7) 4)
   \<and> sint (op_diff (IteratorCore (Ptr (7::nat)) 4) (IteratorCore (Ptr 7) 0)) = 4"
proof -
  have l: "Length (TestHost (fill 4 0)) 7 < 2 ^ 31"
    by (simp add: TestHost_def fill_def)
  have b: "For_begin (TestHost (fill 4 0)) 7 = Synthesized (IteratorCore (Ptr 7) 0)"
    by (simp add: For_begin_def TestHost_def)
  have e: "For_end (TestHost (fill 4 0)) 7 = Synthesized (IteratorCore (Ptr 7) 4)"
    by (simp add: For_end_def TestHost_def fill_def length_to_int_def)
  show ?thesis
    using l b e begin_end_positions [OF l b e] by (simp add: TestHost_def fill_def)
qed

text \<open>
  Claim C1 as stated, for every length, fails: the constructor of the iterator takes
  the position as an \<open>int\<close>. For a host of \<open>2 ^ 31\<close> elements (whose \<open>Length()\<close> returns a
  \<open>std::size_t\<close>, say) \<open>end()\<close> is at position \<open>- 2 ^ 31\<close>, and \<open>end() - begin()\<close> is
  \<open>- 2 ^ 31\<close>, not the length.
\<close>

theorem end_position_counterexample:
  "Length (TestHost (fill 2147483648 0)) 7 = 2147483648
   \<and> For_begin (TestHost (fill 2147483648 0)) 7 = Synthesized (IteratorCore (Ptr 7) 0)
   \<and> For_end (TestHost (fill 2147483648 0)) 7 = Synthesized (IteratorCore (Ptr 7) (- 2147483648))
   \<and> sint (current (IteratorCore (Ptr (7::nat)) (- 2147483648))) = - 2147483648
   \<and> sint (op_diff (IteratorCore (Ptr (7::nat)) (- 2147483648)) (IteratorCore (Ptr 7) 0))
       = - 2147483648
   \<and> sint (op_diff (IteratorCore (Ptr (7::nat)) (- 2147483648)) (IteratorCore (Ptr 7) 0))
       \<noteq> int (Length (TestHost (fill 2147483648 0)) 7)"
  by (simp add: For_begin_def For_end_def TestHost_def fill_def length_to_int_def
      IteratorCore_def sint_op_diff)


section \<open>Dereference and subscript\<close>

lemma op_deref_op_add:
  "op_deref D (op_add i k) =
     HandledReturn (data i) (subscript D (data i) (signed_take_bit 31 (sint (current i) + sint k)))"
  by (simp only: op_deref_def data_op_add sint_current_op_add)

text \<open>
  Claim C2, as amended. For every host of length \<open>n\<close> and every offset \<open>k\<close> with
  \<open>0 \<le> k < n\<close> and \<open>k < 2 ^ 31\<close>, dereferencing \<open>begin() + k\<close> yields a reference to the
  very location that the indexed accessor of the host returns for index \<open>k\<close>: a mutable
  reference through the non-const accessor for the non-const \<open>begin()\<close>, a reference to
  const through the const accessor for the const \<open>begin()\<close>.
\<close>

theorem addressing:
  assumes "0 \<le> sint k" and "sint k < int (Length D h)" and "sint k < 2 ^ 31"
  shows "(For_begin D h = Synthesized b \<longrightarrow>
            op_deref D (op_add b k) = Ref (subscript D (Ptr h) (sint k)))
       \<and> (For_begin_const D h = Synthesized cb \<longrightarrow>
            op_deref D (op_add cb k) = ConstRef (subscript D (ConstPtr h) (sint k)))"
proof -
  have k: "signed_take_bit 31 (sint k) = sint k"
    using assms(1,3) by (simp add: signed_take_bit_int_eq_self)
  have "For_begin D h = Synthesized b \<longrightarrow>
          op_deref D (op_add b k) = Ref (subscript D (Ptr h) (sint k))"
    using k by (auto dest!: For_begin_SynthesizedD
        simp add: op_deref_op_add IteratorCore_def HandledReturn_def)
  moreover have "For_begin_const D h = Synthesized cb \<longrightarrow>
          op_deref D (op_add cb k) = ConstRef (subscript D (ConstPtr h) (sint k))"
    using k by (auto dest!: For_begin_const_SynthesizedD
        simp add: op_deref_op_add IteratorCore_def HandledReturn_def)
  ultimately show ?thesis
    by (rule conjI)
qed

theorem addressing_witness:
  "(0::int) \<le> sint (2 :: ptrdiff_t)
   \<and> sint (2 :: ptrdiff_t) < int (Length (TestHost (fill 4 0)) 7)
   \<and> sint (2 :: ptrdiff_t) < 2 ^ 31
   \<and> For_begin (TestHost (fill 4 0)) 7 = Synthesized (IteratorCore (Ptr 7) 0)
   \<and> For_begin_const (TestHost (fill 4 0)) 7 = Synthesized (IteratorCore (ConstPtr 7) 0)
   \<and> op_deref (TestHost (fill 4 0)) (op_add (IteratorCore (Ptr 7) 0) 2) = Ref (7, 2)
   \<and> op_deref (TestHost (fill 4 0)) (op_add (IteratorCore (ConstPtr 7) 0) 2) = ConstRef (7, 2)"
proof -
  have a: "(0::int) \<le> sint (2 :: ptrdiff_t)"
    by simp
  have l: "sint (2 :: ptrdiff_t) < int (Length (TestHost (fill 4 0)) 7)"
    by (simp add: TestHost_def fill_def)
  have u: "sint (2 :: ptrdiff_t) < 2 ^ 31"
    by simp
  have b: "For_begin (TestHost (fill 4 0)) 7 = Synthesized (IteratorCore (Ptr 7) 0)"
    by (simp add: For_begin_def TestHost_def)
  have c: "For_begin_const (TestHost (fill 4 0)) 7 = Synthesized (IteratorCore (ConstPtr 7) 0)"
    by (simp add: For_begin_const_def TestHost_def)
  show ?thesis
    using a l u b c addressing [OF a l u, where b = "IteratorCore (Ptr 7) 0" and cb = "IteratorCore (ConstPtr 7) 0"]
    by (simp add: TestHost_def)
qed

text \<open>
  Claim C2 as stated, for every \<open>k\<close> below the length, fails: on a host of \<open>2 ^ 31 + 1\<close>
  elements, \<open>begin() + 2 ^ 31\<close> is at position \<open>- 2 ^ 31\<close> and its dereference asks the
  host for index \<open>- 2 ^ 31\<close>, which is not the element at index \<open>2 ^ 31\<close>.
\<close>

theorem addressing_counterexample:
  "(0::int) \<le> sint (2147483648 :: ptrdiff_t)
   \<and> sint (2147483648 :: ptrdiff_t) < int (Length (TestHost (fill 2147483649 0)) 7)
   \<and> For_begin (TestHost (fill 2147483649 0)) 7 = Synthesized (IteratorCore (Ptr 7) 0)
   \<and> subscript (TestHost (fill 2147483649 0)) (Ptr 7) (sint (2147483648 :: ptrdiff_t))
       = (7, 2147483648)
   \<and> op_deref (TestHost (fill 2147483649 0)) (op_add (IteratorCore (Ptr 7) 0) 2147483648)
       = Ref (7, - 2147483648)
   \<and> op_deref (TestHost (fill 2147483649 0)) (op_add (IteratorCore (Ptr 7) 0) 2147483648)
       \<noteq> Ref (subscript (TestHost (fill 2147483649 0)) (Ptr 7) (sint (2147483648 :: ptrdiff_t)))"
  by (simp add: op_deref_op_add For_begin_def TestHost_def fill_def IteratorCore_def
      HandledReturn_def)


text \<open>
  Claim C6. For every iterator \<open>i\<close> and offset \<open>k\<close>, the subscript \<open>i[k]\<close> yields the same
  reference as dereferencing \<open>i + k\<close>, in both iterators. For \<open>IteratorCore\<close> at position
  \<open>p\<close>, when \<open>p + k\<close> is a value of \<open>int\<close> (as it is when \<open>p + k\<close> lies in \<open>[0, n)\<close> for a length
  \<open>n\<close> that begin and end can hold), that reference is to the location the accessor of
  the host returns for index \<open>p + k\<close>.
\<close>

theorem subscript_is_deref_of_sum:
  "op_subscript D i k = op_deref D (op_add i k)
   \<and> Iterator_subscript D u k = Iterator_deref D (Iterator_add u k)
   \<and> (- (2 ^ 31) \<le> sint (current i) + sint k \<and> sint (current i) + sint k < 2 ^ 31 \<longrightarrow>
        op_subscript D i k
          = HandledReturn (data i) (subscript D (data i) (sint (current i) + sint k)))"
  by (simp add: op_subscript_def Iterator_subscript_def Iterator_deref_def Iterator_add_def
      op_deref_op_add signed_take_bit_int_eq_self)

theorem subscript_is_deref_of_sum_witness:
  "- (2 ^ 31) \<le> sint (current (IteratorCore (Ptr (7::nat)) 1)) + sint (2 :: ptrdiff_t)
   \<and> sint (current (IteratorCore (Ptr (7::nat)) 1)) + sint (2 :: ptrdiff_t) < 2 ^ 31
   \<and> op_subscript (TestHost (fill 4 0)) (IteratorCore (Ptr 7) 1) 2 = Ref (7, 3)
   \<and> op_deref (TestHost (fill 4 0)) (op_add (IteratorCore (Ptr 7) 1) 2) = Ref (7, 3)"
proof -
  let ?i = "IteratorCore (Ptr (7::nat)) 1"
  have h: "- (2 ^ 31) \<le> sint (current ?i) + sint (2 :: ptrdiff_t)
      \<and> sint (current ?i) + sint (2 :: ptrdiff_t) < 2 ^ 31"
    by (simp add: IteratorCore_def)
  note t = subscript_is_deref_of_sum [where D = "TestHost (fill 4 0)" and i = ?i and k = 2
      and u = "\<lparr>self = 7, current64 = 0\<rparr>"]
  from t h have "op_subscript (TestHost (fill 4 0)) ?i 2
      = HandledReturn (data ?i) (subscript (TestHost (fill 4 0)) (data ?i)
          (sint (current ?i) + sint (2 :: ptrdiff_t)))"
    by blast
  then have s: "op_subscript (TestHost (fill 4 0)) ?i 2 = Ref (7, 3)"
    by (simp add: IteratorCore_def TestHost_def HandledReturn_def)
  from t have "op_subscript (TestHost (fill 4 0)) ?i 2 = op_deref (TestHost (fill 4 0)) (op_add ?i 2)"
    by blast
  with s have "op_deref (TestHost (fill 4 0)) (op_add ?i 2) = Ref (7, 3)"
    by simp
  with h s show ?thesis
    by blast
qed

section \<open>Addition and subtraction\<close>

lemma op_sub_op_add: "op_sub (op_add i k) k = i"
proof -
  have "current (op_sub (op_add i k) k) = current i"
    by (simp add: current_op_sub current_op_add)
  moreover have "data (op_sub (op_add i k) k) = data i"
    by (simp add: data_op_sub data_op_add)
  ultimately show ?thesis
    by simp
qed

lemma op_diff_op_add: "op_diff (op_add i k) i = int_to_ptrdiff (ptrdiff_to_int k)"
  by (simp add: op_diff_def current_op_add)

text \<open>
  Claim C7, as amended. For every iterator \<open>i\<close> and every offset \<open>k\<close>, \<open>(i + k) - k\<close> is
  \<open>i\<close> (the same position and the same host, so \<open>==\<close> holds), in both iterators. The
  difference \<open>(i + k) - i\<close> of two \<open>IteratorCore\<close>s is \<open>k\<close> converted to \<open>int\<close> and back; it
  is \<open>k\<close> for every \<open>k\<close> with \<open>- 2 ^ 31 \<le> k < 2 ^ 31\<close>. The \<open>Iterator\<close> of \<open>Iterable\<close> has no
  difference of two iterators.
\<close>

theorem add_then_subtract:
  "op_sub (op_add i k) k = i
   \<and> op_eq (op_sub (op_add i k) k) i
   \<and> op_diff (op_add i k) i = int_to_ptrdiff (ptrdiff_to_int k)
   \<and> (- (2 ^ 31) \<le> sint k \<and> sint k < 2 ^ 31 \<longrightarrow> op_diff (op_add i k) i = k)
   \<and> Iterator_sub (Iterator_add u k) k = u
   \<and> Iterator_eq (Iterator_sub (Iterator_add u k) k) u"
  by (simp add: op_sub_op_add op_diff_op_add int_to_ptrdiff_narrow op_eq_def
      Iterator_sub_def Iterator_add_def Iterator_eq_def)

theorem add_then_subtract_witness:
  "- (2 ^ 31) \<le> sint (3 :: ptrdiff_t) \<and> sint (3 :: ptrdiff_t) < 2 ^ 31
   \<and> op_sub (op_add (IteratorCore (Ptr (7::nat)) 1) 3) 3 = IteratorCore (Ptr 7) 1
   \<and> op_diff (op_add (IteratorCore (Ptr (7::nat)) 1) 3) (IteratorCore (Ptr 7) 1) = 3"
proof -
  have h: "- (2 ^ 31) \<le> sint (3 :: ptrdiff_t) \<and> sint (3 :: ptrdiff_t) < 2 ^ 31"
    by simp
  note t = add_then_subtract [where i = "IteratorCore (Ptr (7::nat)) 1" and k = 3
      and u = "\<lparr>self = 7::nat, current64 = 0\<rparr>"]
  from t h show ?thesis
    by blast
qed

text \<open>
  Claim C7 as stated, for every integer \<open>k\<close>, fails in its second half: for \<open>k = 2 ^ 32\<close>
  the iterator \<open>i + k\<close> is at the position of \<open>i\<close>, and \<open>(i + k) - i\<close> is \<open>0\<close>.
\<close>

theorem difference_counterexample:
  "op_add (IteratorCore (Ptr (7::nat)) 0) 4294967296 = IteratorCore (Ptr 7) 0
   \<and> op_diff (op_add (IteratorCore (Ptr (7::nat)) 0) 4294967296) (IteratorCore (Ptr 7) 0) = 0
   \<and> op_diff (op_add (IteratorCore (Ptr (7::nat)) 0) 4294967296) (IteratorCore (Ptr 7) 0)
       \<noteq> 4294967296"
  by (simp add: op_diff_def op_add_def int_to_ptrdiff_def ptrdiff_to_int_def IteratorCore_def)


section \<open>The width of the position\<close>

lemma current_op_add_assign: "current (op_add_assign i k) = current (op_add i k)"
  by (simp add: op_add_assign_def op_add_def IteratorCore_def)

lemma current_op_sub_assign: "current (op_sub_assign i k) = current (op_sub i k)"
  by (simp add: op_sub_assign_def op_sub_def IteratorCore_def)

lemma sint_signed_diff: "sint (a - b :: 32 word) = signed_take_bit 31 (sint a - sint b)"
  by (simp add: sint_word_ariths)

lemma stb_stb_diff:
  "signed_take_bit 31 (sint (c::32 word) - signed_take_bit 31 (x::int)) = signed_take_bit 31 (sint c - x)"
  by (metis signed_take_bit_diff signed_take_bit_signed_take_bit min.idem)

lemma sint_current_op_sub:
  "sint (current (op_sub i k)) = signed_take_bit 31 (sint (current i) - sint k)"
  by (simp only: current_op_sub sint_signed_diff sint_ptrdiff_to_int_gen stb_stb_diff)

lemma signed_take_bit_31_self_iff:
  "signed_take_bit 31 (x::int) = x \<longleftrightarrow> - (2 ^ 31) \<le> x \<and> x < 2 ^ 31"
  by (simp add: signed_take_bit_int_eq_self_iff)

lemma distance_iff:
  assumes "For_begin D h = Synthesized b" and "For_end D h = Synthesized e"
  shows "sint (op_diff e b) = int (Length D h) \<longleftrightarrow> Length D h < 2 ^ 31"
proof -
  have b: "b = IteratorCore (Ptr h) 0"
    using assms(1) by (rule For_begin_SynthesizedD)
  have e: "e = IteratorCore (Ptr h) (length_to_int (Length D h))"
    using assms(2) by (rule For_end_SynthesizedD)
  have "sint (op_diff e b) = signed_take_bit 31 (int (Length D h))"
    by (simp add: b e sint_op_diff IteratorCore_def sint_length_to_int_gen)
  then show ?thesis
    by (simp only: signed_take_bit_31_self_iff) simp
qed

text \<open>
  Claim C10. The position is an \<open>int\<close> and the offsets are \<open>std::ptrdiff_t\<close>: for every
  iterator at position \<open>p\<close> and every offset \<open>k\<close>, the position of \<open>i + k\<close> and of \<open>i += k\<close>
  is \<open>p + k\<close> reduced to the 32 bits of an \<open>int\<close> in two's complement
  (\<open>signed_take_bit 31\<close>), and likewise \<open>p - k\<close> for \<open>i - k\<close> and \<open>i -= k\<close>. It is the
  mathematical sum if and only if that sum is a value of \<open>int\<close>. Hence the distance
  \<open>end() - begin()\<close> is the length of the host if and only if the length is below
  \<open>2 ^ 31\<close>, and \<open>begin() + k\<close> is at position \<open>k\<close>, for \<open>k \<ge> 0\<close>, if and only if \<open>k\<close> is
  below \<open>2 ^ 31\<close>.
\<close>

theorem position_reduced_to_int:
  "sint (current (op_add i k)) = signed_take_bit 31 (sint (current i) + sint k)
   \<and> sint (current (op_add_assign i k)) = signed_take_bit 31 (sint (current i) + sint k)
   \<and> sint (current (op_sub i k)) = signed_take_bit 31 (sint (current i) - sint k)
   \<and> sint (current (op_sub_assign i k)) = signed_take_bit 31 (sint (current i) - sint k)
   \<and> (sint (current (op_add i k)) = sint (current i) + sint k
        \<longleftrightarrow> - (2 ^ 31) \<le> sint (current i) + sint k \<and> sint (current i) + sint k < 2 ^ 31)
   \<and> (sint (current (op_add_assign i k)) = sint (current i) + sint k
        \<longleftrightarrow> - (2 ^ 31) \<le> sint (current i) + sint k \<and> sint (current i) + sint k < 2 ^ 31)
   \<and> (For_begin D h = Synthesized b \<and> For_end D h = Synthesized e \<longrightarrow>
        (sint (op_diff e b) = int (Length D h) \<longleftrightarrow> Length D h < 2 ^ 31))
   \<and> (For_begin D h = Synthesized b \<and> 0 \<le> sint k \<longrightarrow>
        (sint (current (op_add b k)) = sint k \<longleftrightarrow> sint k < 2 ^ 31))"
proof -
  have 1: "sint (current (op_add i k)) = signed_take_bit 31 (sint (current i) + sint k)"
    by (rule sint_current_op_add)
  have 2: "sint (current (op_add_assign i k)) = signed_take_bit 31 (sint (current i) + sint k)"
    by (simp only: current_op_add_assign sint_current_op_add)
  have 3: "sint (current (op_sub i k)) = signed_take_bit 31 (sint (current i) - sint k)"
    by (rule sint_current_op_sub)
  have 4: "sint (current (op_sub_assign i k)) = signed_take_bit 31 (sint (current i) - sint k)"
    by (simp only: current_op_sub_assign sint_current_op_sub)
  have 5: "sint (current (op_add i k)) = sint (current i) + sint k
        \<longleftrightarrow> - (2 ^ 31) \<le> sint (current i) + sint k \<and> sint (current i) + sint k < 2 ^ 31"
    by (simp only: 1 signed_take_bit_31_self_iff)
  have 6: "sint (current (op_add_assign i k)) = sint (current i) + sint k
        \<longleftrightarrow> - (2 ^ 31) \<le> sint (current i) + sint k \<and> sint (current i) + sint k < 2 ^ 31"
    by (simp only: 2 signed_take_bit_31_self_iff)
  have 7: "For_begin D h = Synthesized b \<and> For_end D h = Synthesized e \<longrightarrow>
        (sint (op_diff e b) = int (Length D h) \<longleftrightarrow> Length D h < 2 ^ 31)"
    by (intro impI, elim conjE) (rule distance_iff)
  have 8: "For_begin D h = Synthesized b \<and> 0 \<le> sint k \<longrightarrow>
        (sint (current (op_add b k)) = sint k \<longleftrightarrow> sint k < 2 ^ 31)"
  proof (intro impI, elim conjE)
    assume b: "For_begin D h = Synthesized b" and k: "0 \<le> sint k"
    have "b = IteratorCore (Ptr h) 0"
      using b by (rule For_begin_SynthesizedD)
    then have "sint (current (op_add b k)) = signed_take_bit 31 (sint k)"
      by (simp add: sint_current_op_add IteratorCore_def)
    then show "sint (current (op_add b k)) = sint k \<longleftrightarrow> sint k < 2 ^ 31"
      using k by (simp only: signed_take_bit_31_self_iff) simp
  qed
  show ?thesis
    by (intro conjI) (rule 1 2 3 4 5 6 7 8)+
qed



theorem position_reduced_to_int_witness:
  "For_begin (TestHost (fill 2147483648 0)) 7 = Synthesized (IteratorCore (Ptr 7) 0)
   \<and> For_end (TestHost (fill 2147483648 0)) 7 = Synthesized (IteratorCore (Ptr 7) (- 2147483648))
   \<and> (0::int) \<le> sint (2147483648 :: ptrdiff_t)
   \<and> sint (current (op_add (IteratorCore (Ptr (7::nat)) 2147483647) 1)) = - 2147483648
   \<and> sint (op_diff (IteratorCore (Ptr (7::nat)) (- 2147483648)) (IteratorCore (Ptr 7) 0))
       \<noteq> int (Length (TestHost (fill 2147483648 0)) 7)
   \<and> sint (current (op_add (IteratorCore (Ptr (7::nat)) 0) 2147483648)) \<noteq> 2147483648"
proof -
  let ?D = "TestHost (fill 2147483648 0)"
  let ?b = "IteratorCore (Ptr (7::nat)) 0"
  let ?e = "IteratorCore (Ptr (7::nat)) (- 2147483648)"
  have b: "For_begin ?D 7 = Synthesized ?b"
    by (simp add: For_begin_def TestHost_def)
  have e: "For_end ?D 7 = Synthesized ?e"
    by (simp add: For_end_def TestHost_def fill_def length_to_int_def IteratorCore_def)
  have k: "(0::int) \<le> sint (2147483648 :: ptrdiff_t)"
    by simp
  have n: "\<not> Length ?D 7 < 2 ^ 31"
    by (simp add: TestHost_def fill_def)
  have m: "\<not> sint (2147483648 :: ptrdiff_t) < 2 ^ 31"
    by simp
  note t = position_reduced_to_int [where D = ?D and h = 7 and b = ?b and e = ?e
      and k = 2147483648 and i = ?b]
  have "For_begin ?D 7 = Synthesized ?b \<and> For_end ?D 7 = Synthesized ?e \<longrightarrow>
      (sint (op_diff ?e ?b) = int (Length ?D 7) \<longleftrightarrow> Length ?D 7 < 2 ^ 31)"
    using t by (elim conjE) assumption
  with b e n have d: "sint (op_diff ?e ?b) \<noteq> int (Length ?D 7)"
    by simp
  have "For_begin ?D 7 = Synthesized ?b \<and> 0 \<le> sint (2147483648 :: ptrdiff_t) \<longrightarrow>
      (sint (current (op_add ?b 2147483648)) = sint (2147483648 :: ptrdiff_t)
        \<longleftrightarrow> sint (2147483648 :: ptrdiff_t) < 2 ^ 31)"
    using t by (elim conjE) assumption
  with b have a: "sint (current (op_add ?b 2147483648)) \<noteq> 2147483648"
    by simp
  have w: "sint (current (op_add (IteratorCore (Ptr (7::nat)) 2147483647) 1)) = - 2147483648"
    using position_reduced_to_int [where i = "IteratorCore (Ptr (7::nat)) 2147483647" and k = 1,
        THEN conjunct1]
    by (simp add: IteratorCore_def)
  show ?thesis
    by (intro conjI) (rule b e k w d a)+
qed


section \<open>What the operations touch\<close>

lemma rebind_navigation:
  "pre_inc (rebind f i) = rebind f (pre_inc i)"
  "pre_dec (rebind f i) = rebind f (pre_dec i)"
  "post_inc (rebind f i) = (rebind f (fst (post_inc i)), rebind f (snd (post_inc i)))"
  "post_dec (rebind f i) = (rebind f (fst (post_dec i)), rebind f (snd (post_dec i)))"
  "op_add (rebind f i) n = rebind f (op_add i n)"
  "op_sub (rebind f i) n = rebind f (op_sub i n)"
  "op_add_left n (rebind f i) = rebind f (op_add_left n i)"
  "op_add_assign (rebind f i) n = rebind f (op_add_assign i n)"
  "op_sub_assign (rebind f i) n = rebind f (op_sub_assign i n)"
  by (simp_all add: rebind_def pre_inc_def pre_dec_def post_inc_def post_dec_def op_add_def
      op_sub_def op_add_left_def op_add_assign_def op_sub_assign_def IteratorCore_def)

lemma rebind_comparison:
  "op_diff (rebind f i) (rebind g j) = op_diff i j"
  "op_eq (rebind f i) (rebind g j) = op_eq i j"
  "op_ne (rebind f i) (rebind g j) = op_ne i j"
  "op_lt (rebind f i) (rebind g j) = op_lt i j"
  "op_gt (rebind f i) (rebind g j) = op_gt i j"
  "op_le (rebind f i) (rebind g j) = op_le i j"
  "op_ge (rebind f i) (rebind g j) = op_ge i j"
  by (simp_all add: rebind_def op_diff_def op_eq_def op_ne_def op_lt_def op_gt_def op_le_def
      op_ge_def)

lemma data_navigation:
  "data (pre_inc i) = data i"
  "data (pre_dec i) = data i"
  "data (fst (post_inc i)) = data i"
  "data (snd (post_inc i)) = data i"
  "data (fst (post_dec i)) = data i"
  "data (snd (post_dec i)) = data i"
  "data (op_add i n) = data i"
  "data (op_sub i n) = data i"
  "data (op_add_left n i) = data i"
  "data (op_add_assign i n) = data i"
  "data (op_sub_assign i n) = data i"
  by (simp_all add: pre_inc_def pre_dec_def post_inc_def post_dec_def op_add_def
      op_sub_def op_add_left_def op_add_assign_def op_sub_assign_def IteratorCore_def)

lemma host_access:
  "op_deref D i = HandledReturn (data i) (subscript D (data i) (sint (current i)))"
  "op_arrow D i = HandledReturn (data i) (subscript D (data i) (sint (current i)))"
  "op_subscript D i n =
     HandledReturn (data i) (subscript D (data i) (sint (current (op_add i n))))"
  by (simp_all add: op_deref_def op_arrow_def op_subscript_def data_navigation)

text \<open>
  Claim C9. The increments and decrements, the additions and subtractions of an
  offset (also compound, also with the offset on the left), the difference of two
  iterators and the six comparisons use the position and the pointer to the host and
  nothing else, and the pointer they only copy: whatever the pointer is replaced by
  (\<open>rebind f\<close>, for any \<open>f\<close>, into any type), the operation gives the same positions, the
  same difference and the same truth value, and every iterator it returns or leaves
  behind carries the pointer of its operand. No operation of the host takes part. Only
  \<open>operator*\<close>, \<open>operator->\<close> and \<open>operator[]\<close> go through the pointer: each is one call
  of the indexed accessor of the host, at the position of the iterator (plus the
  offset, for the subscript), and yields the reference to the element through which
  the host can be read and written.
\<close>

theorem navigation_leaves_host_alone:
  "pre_inc (rebind f i) = rebind f (pre_inc i)
   \<and> pre_dec (rebind f i) = rebind f (pre_dec i)
   \<and> post_inc (rebind f i) = (rebind f (fst (post_inc i)), rebind f (snd (post_inc i)))
   \<and> post_dec (rebind f i) = (rebind f (fst (post_dec i)), rebind f (snd (post_dec i)))
   \<and> op_add (rebind f i) n = rebind f (op_add i n)
   \<and> op_sub (rebind f i) n = rebind f (op_sub i n)
   \<and> op_add_left n (rebind f i) = rebind f (op_add_left n i)
   \<and> op_add_assign (rebind f i) n = rebind f (op_add_assign i n)
   \<and> op_sub_assign (rebind f i) n = rebind f (op_sub_assign i n)
   \<and> op_diff (rebind f i) (rebind g j) = op_diff i j
   \<and> op_eq (rebind f i) (rebind g j) = op_eq i j
   \<and> op_ne (rebind f i) (rebind g j) = op_ne i j
   \<and> op_lt (rebind f i) (rebind g j) = op_lt i j
   \<and> op_gt (rebind f i) (rebind g j) = op_gt i j
   \<and> op_le (rebind f i) (rebind g j) = op_le i j
   \<and> op_ge (rebind f i) (rebind g j) = op_ge i j
   \<and> data (pre_inc i) = data i
   \<and> data (pre_dec i) = data i
   \<and> data (fst (post_inc i)) = data i
   \<and> data (snd (post_inc i)) = data i
   \<and> data (fst (post_dec i)) = data i
   \<and> data (snd (post_dec i)) = data i
   \<and> data (op_add i n) = data i
   \<and> data (op_sub i n) = data i
   \<and> data (op_add_left n i) = data i
   \<and> data (op_add_assign i n) = data i
   \<and> data (op_sub_assign i n) = data i
   \<and> op_deref D p = HandledReturn (data p) (subscript D (data p) (sint (current p)))
   \<and> op_arrow D p = HandledReturn (data p) (subscript D (data p) (sint (current p)))
   \<and> op_subscript D p n =
        HandledReturn (data p) (subscript D (data p) (sint (current (op_add p n))))"
  by (intro conjI) (rule rebind_navigation rebind_comparison data_navigation host_access)+

section \<open>Constness of the element references\<close>



















section \<open>The elements a range-based \<open>for\<close> visits\<close>

lemma length_to_int_0: "length_to_int 0 = 0"
  by (simp add: length_to_int_def)

lemma length_to_int_Suc: "length_to_int (Suc k) = length_to_int k + 1"
  by (simp add: length_to_int_def)

lemma length_to_int_inj:
  assumes "k < 2 ^ 31" and "n < 2 ^ 31" and "length_to_int k = length_to_int n"
  shows "k = n"
proof -
  have "int k = sint (length_to_int k)"
    using assms(1) by (simp add: sint_length_to_int)
  also have "\<dots> = sint (length_to_int n)"
    using assms(3) by simp
  also have "\<dots> = int n"
    using assms(2) by (simp add: sint_length_to_int)
  finally show ?thesis
    by simp
qed

lemma core_range_stop: "core_range D (IteratorCore p c) (IteratorCore p c) = []"
  by (subst core_range.simps) (simp add: op_ne_def)

lemma core_range_step:
  assumes "k < n" and "n < 2 ^ 31"
  shows "core_range D (IteratorCore p (length_to_int k)) (IteratorCore p (length_to_int n))
    = HandledReturn p (subscript D p (int k))
      # core_range D (IteratorCore p (length_to_int (Suc k))) (IteratorCore p (length_to_int n))"
proof -
  have k: "k < 2 ^ 31"
    using assms by simp
  have ne: "op_ne (IteratorCore p (length_to_int k)) (IteratorCore p (length_to_int n))"
    using length_to_int_inj [OF k assms(2)] assms(1)
    by (auto simp add: op_ne_def IteratorCore_def)
  have d: "op_deref D (IteratorCore p (length_to_int k)) = HandledReturn p (subscript D p (int k))"
    using k by (simp add: op_deref_def IteratorCore_def sint_length_to_int)
  have s: "pre_inc (IteratorCore p (length_to_int k)) = IteratorCore p (length_to_int (Suc k))"
    by (simp add: pre_inc_def IteratorCore_def length_to_int_Suc)
  show ?thesis
    by (subst core_range.simps) (simp only: ne d s if_True)
qed

lemma core_range_upt:
  assumes "n < 2 ^ 31"
  shows "k \<le> n \<Longrightarrow>
    core_range D (IteratorCore p (length_to_int k)) (IteratorCore p (length_to_int n))
      = map (\<lambda>j. HandledReturn p (subscript D p (int j))) [k..<n]"
proof (induction "n - k" arbitrary: k)
  case 0
  then have "k = n"
    by simp
  then show ?case
    by (simp add: core_range_stop)
next
  case (Suc m)
  then have lt: "k < n" and m: "m = n - Suc k" and le: "Suc k \<le> n"
    by simp_all
  have "core_range D (IteratorCore p (length_to_int k)) (IteratorCore p (length_to_int n))
      = HandledReturn p (subscript D p (int k))
        # core_range D (IteratorCore p (length_to_int (Suc k))) (IteratorCore p (length_to_int n))"
    using lt assms by (rule core_range_step)
  also have "core_range D (IteratorCore p (length_to_int (Suc k))) (IteratorCore p (length_to_int n))
      = map (\<lambda>j. HandledReturn p (subscript D p (int j))) [Suc k..<n]"
    using m le by (rule Suc.hyps(1))
  finally show ?case
    using lt by (simp add: upt_conv_Cons)
qed

lemma fetch_all_upt:
  assumes "\<forall>j < length xs. fetch (target (R j)) = Inr (xs ! j)"
  shows "k \<le> length xs \<Longrightarrow> fetch_all fetch (map R [k..<length xs]) = Inr (drop k xs)"
proof (induction "length xs - k" arbitrary: k)
  case 0
  then show ?case
    by simp
next
  case (Suc m)
  then have lt: "k < length xs" and m: "m = length xs - Suc k" and le: "Suc k \<le> length xs"
    by simp_all
  have ih: "fetch_all fetch (map R [Suc k..<length xs]) = Inr (drop (Suc k) xs)"
    using m le by (rule Suc.hyps(1))
  have f: "fetch (target (R k)) = Inr (xs ! k)"
    using assms lt by simp
  have "fetch_all fetch (map R [k..<length xs])
      = fetch_all fetch (R k # map R [Suc k..<length xs])"
    using lt by (simp add: upt_conv_Cons)
  also have "\<dots> = Inr (xs ! k # drop (Suc k) xs)"
    by (simp add: f ih)
  also have "xs ! k # drop (Suc k) xs = drop k xs"
    using lt by (simp add: Cons_nth_drop_Suc)
  finally show ?case .
qed

lemma target_HandledReturn: "target (HandledReturn p r) = r"
  by (simp add: HandledReturn_def)

lemma range_for_synthesized:
  assumes "member_data D = None" and "Length D h < 2 ^ 31"
    and "\<forall>k < length xs. fetch (subscript D (Ptr h) (int k)) = Inr (xs ! k)"
    and "Length D h = length xs"
  shows "range_for D fetch (For_begin D h) (For_end D h) = Inr xs"
proof -
  have "core_range D (IteratorCore (Ptr h) (length_to_int 0))
      (IteratorCore (Ptr h) (length_to_int (length xs)))
      = map (\<lambda>j. HandledReturn (Ptr h) (subscript D (Ptr h) (int j))) [0..<length xs]"
    using assms(2,4) by (intro core_range_upt) simp_all
  moreover have "fetch_all fetch
      (map (\<lambda>j. HandledReturn (Ptr h) (subscript D (Ptr h) (int j))) [0..<length xs])
      = Inr (drop 0 xs)"
    using assms(3) by (intro fetch_all_upt) (simp_all add: target_HandledReturn)
  ultimately show ?thesis
    using assms(1,4) by (simp add: For_begin_def For_end_def length_to_int_0)
qed

lemma native_range_whole: "native_range (native_begin c xs) (native_end c' xs) = xs"
  by (simp add: native_range_def native_begin_def native_end_def map_nth)

section \<open>The delegation shortcut\<close>

lemma For_native:
  assumes "member_data D = Some handle"
  shows "For_begin D h = Native (native_begin False (handle h))"
    and "For_end D h = Native (native_end False (handle h))"
    and "For_begin_const D h = Native (native_begin True (handle h))"
    and "For_end_const D h = Native (native_end True (handle h))"
    and "For_cbegin D h = Native (native_begin True (handle h))"
    and "For_cend D h = Native (native_end True (handle h))"
  using assms
  by (simp_all add: For_begin_def For_end_def For_begin_const_def For_end_const_def
      For_cbegin_def For_cend_def)

lemma synthesizing_simps:
  "member_data (synthesizing D) = None"
  "Length (synthesizing D) = Length D"
  "subscript (synthesizing D) = subscript D"
  by (simp_all add: synthesizing_def)

text \<open>
  Claim C3, as amended. For a host class with an accessible member \<open>data_\<close>, \<open>begin()\<close> and
  \<open>end()\<close> (also const, also \<open>cbegin()\<close> and \<open>cend()\<close>) return the native iterators of that
  handle, and a range-based \<open>for\<close> over the host reads exactly the elements that a loop
  over the handle itself reads, in order. When \<open>Length()\<close> of the host is the size of the
  handle, below \<open>2 ^ 31\<close>, and the indexed accessor at \<open>k\<close> refers to element \<open>k\<close> of the
  handle, the synthesized iterators would visit the same elements: for such a host the
  shortcut shows only in the type of the iterator.
\<close>

theorem delegation_shortcut:
  assumes "member_data D = Some handle"
  shows "HasPubContainer D
    \<and> For_begin D h = Native (native_begin False (handle h))
    \<and> For_end D h = Native (native_end False (handle h))
    \<and> For_begin_const D h = Native (native_begin True (handle h))
    \<and> For_end_const D h = Native (native_end True (handle h))
    \<and> For_cbegin D h = Native (native_begin True (handle h))
    \<and> For_cend D h = Native (native_end True (handle h))
    \<and> range_for D fetch (For_begin D h) (For_end D h)
        = Inr (native_range (native_begin False (handle h)) (native_end False (handle h)))
    \<and> range_for D fetch (For_begin_const D h) (For_end_const D h)
        = Inr (native_range (native_begin True (handle h)) (native_end True (handle h)))
    \<and> range_for D fetch (For_begin D h) (For_end D h) = Inr (handle h)
    \<and> range_for D fetch (For_begin_const D h) (For_end_const D h) = Inr (handle h)
    \<and> (Length D h = length (handle h) \<and> length (handle h) < 2 ^ 31
        \<and> (\<forall>k < length (handle h). fetch (subscript D (Ptr h) (int k)) = Inr (handle h ! k)) \<longrightarrow>
        range_for (synthesizing D) fetch
            (For_begin (synthesizing D) h) (For_end (synthesizing D) h)
          = range_for D fetch (For_begin D h) (For_end D h))"
proof -
  note n = For_native [OF assms, of h]
  have 1: "HasPubContainer D"
    using assms by (simp add: HasPubContainer_def)
  have 2: "range_for D fetch (For_begin D h) (For_end D h)
      = Inr (native_range (native_begin False (handle h)) (native_end False (handle h)))"
    by (simp add: n)
  have 3: "range_for D fetch (For_begin_const D h) (For_end_const D h)
      = Inr (native_range (native_begin True (handle h)) (native_end True (handle h)))"
    by (simp add: n)
  have 4: "range_for D fetch (For_begin D h) (For_end D h) = Inr (handle h)"
    by (simp add: n native_range_whole)
  have 5: "range_for D fetch (For_begin_const D h) (For_end_const D h) = Inr (handle h)"
    by (simp add: n native_range_whole)
  have 6: "Length D h = length (handle h) \<and> length (handle h) < 2 ^ 31
        \<and> (\<forall>k < length (handle h). fetch (subscript D (Ptr h) (int k)) = Inr (handle h ! k)) \<longrightarrow>
        range_for (synthesizing D) fetch
            (For_begin (synthesizing D) h) (For_end (synthesizing D) h)
          = range_for D fetch (For_begin D h) (For_end D h)"
  proof (intro impI, elim conjE)
    assume l: "Length D h = length (handle h)" and b: "length (handle h) < 2 ^ 31"
      and f: "\<forall>k < length (handle h). fetch (subscript D (Ptr h) (int k)) = Inr (handle h ! k)"
    have "range_for (synthesizing D) fetch
        (For_begin (synthesizing D) h) (For_end (synthesizing D) h) = Inr (handle h)"
      using l b f by (intro range_for_synthesized) (simp_all add: synthesizing_simps)
    then show "range_for (synthesizing D) fetch
        (For_begin (synthesizing D) h) (For_end (synthesizing D) h)
          = range_for D fetch (For_begin D h) (For_end D h)"
      by (simp only: 4)
  qed
  show ?thesis
    by (intro conjI) (rule 1 n 2 3 4 5 6)+
qed

lemma load_single:
  "k < length xs \<Longrightarrow> load (single a xs) (a, int k) = Inr (xs ! k)"
  by (simp add: load_def single_def)

theorem delegation_shortcut_witness:
  "member_data (DelegatingHost (single 0 [7, 8, 9])) = Some (single 0 [7, 8, 9])
   \<and> Length (DelegatingHost (single 0 [7, 8, 9])) 0 = length (single 0 [7, 8, 9] 0)
   \<and> length (single 0 [7, 8, 9] 0) < 2 ^ 31
   \<and> load (single 0 [7, 8, 9]) (subscript (DelegatingHost (single 0 [7, 8, 9])) (Ptr 0) 0)
        = Inr 7
   \<and> load (single 0 [7, 8, 9]) (subscript (DelegatingHost (single 0 [7, 8, 9])) (Ptr 0) 1)
        = Inr 8
   \<and> load (single 0 [7, 8, 9]) (subscript (DelegatingHost (single 0 [7, 8, 9])) (Ptr 0) 2)
        = Inr 9
   \<and> For_begin (DelegatingHost (single 0 [7, 8, 9])) 0 = Native (native_begin False [7, 8, 9])
   \<and> For_end (DelegatingHost (single 0 [7, 8, 9])) 0 = Native (native_end False [7, 8, 9])
   \<and> range_for (DelegatingHost (single 0 [7, 8, 9])) (load (single 0 [7, 8, 9]))
        (For_begin (DelegatingHost (single 0 [7, 8, 9])) 0)
        (For_end (DelegatingHost (single 0 [7, 8, 9])) 0) = Inr [7, 8, 9]
   \<and> range_for (synthesizing (DelegatingHost (single 0 [7, 8, 9]))) (load (single 0 [7, 8, 9]))
        (For_begin (synthesizing (DelegatingHost (single 0 [7, 8, 9]))) 0)
        (For_end (synthesizing (DelegatingHost (single 0 [7, 8, 9]))) 0) = Inr [7, 8, 9]"
proof -
  let ?s = "single 0 [7, 8, 9]"
  let ?D = "DelegatingHost ?s"
  have s0: "?s 0 = [7, 8, 9]"
    by (simp add: single_def)
  have m: "member_data ?D = Some ?s"
    by (simp add: DelegatingHost_def)
  have l: "Length ?D 0 = length (?s 0)"
    by (simp add: DelegatingHost_def)
  have b: "length (?s 0) < 2 ^ 31"
    by (simp add: s0)
  have f: "\<forall>k < length (?s 0). load ?s (subscript ?D (Ptr 0) (int k)) = Inr (?s 0 ! k)"
    by (simp add: DelegatingHost_def s0 load_single)
  have f0: "load ?s (subscript ?D (Ptr 0) 0) = Inr 7"
    and f1: "load ?s (subscript ?D (Ptr 0) 1) = Inr 8"
    and f2: "load ?s (subscript ?D (Ptr 0) 2) = Inr 9"
    by (simp_all add: DelegatingHost_def load_def s0)
  note t = delegation_shortcut [OF m, where h = 0 and fetch = "load ?s"]
  have "For_begin ?D 0 = Native (native_begin False (?s 0))"
    using t by (elim conjE) assumption
  then have 1: "For_begin ?D 0 = Native (native_begin False [7, 8, 9])"
    by (simp only: s0)
  have "For_end ?D 0 = Native (native_end False (?s 0))"
    using t by (elim conjE) assumption
  then have 2: "For_end ?D 0 = Native (native_end False [7, 8, 9])"
    by (simp only: s0)
  have "range_for ?D (load ?s) (For_begin ?D 0) (For_end ?D 0) = Inr (?s 0)"
    using t by (elim conjE) assumption
  then have 3: "range_for ?D (load ?s) (For_begin ?D 0) (For_end ?D 0) = Inr [7, 8, 9]"
    by (simp only: s0)
  have "Length ?D 0 = length (?s 0) \<and> length (?s 0) < 2 ^ 31
        \<and> (\<forall>k < length (?s 0). load ?s (subscript ?D (Ptr 0) (int k)) = Inr (?s 0 ! k)) \<longrightarrow>
        range_for (synthesizing ?D) (load ?s)
            (For_begin (synthesizing ?D) 0) (For_end (synthesizing ?D) 0)
          = range_for ?D (load ?s) (For_begin ?D 0) (For_end ?D 0)"
    using t by (elim conjE) assumption
  with l b f have "range_for (synthesizing ?D) (load ?s)
      (For_begin (synthesizing ?D) 0) (For_end (synthesizing ?D) 0)
        = range_for ?D (load ?s) (For_begin ?D 0) (For_end ?D 0)"
    by blast
  with 3 have 4: "range_for (synthesizing ?D) (load ?s)
      (For_begin (synthesizing ?D) 0) (For_end (synthesizing ?D) 0) = Inr [7, 8, 9]"
    by simp
  show ?thesis
    by (intro conjI) (rule m l b f0 f1 f2 1 2 3 4)+
qed

text \<open>
  Claim C3 as stated fails in its last part, that the shortcut is observable only
  through the type of the iterator. The mixin takes any accessible member named
  \<open>data_\<close> and never compares it with \<open>Length()\<close> and \<open>operator[]\<close>. A host that counts 2 of
  the 3 elements of its buffer \<open>[7, 8, 9]\<close> as its own is iterated as 7, 8, 9 through
  the shortcut, and as 7, 8 by the synthesized iterators.
\<close>

theorem shortcut_counterexample:
  "member_data (PrefixHost 2 (single 0 [7, 8, 9])) = Some (single 0 [7, 8, 9])
   \<and> Length (PrefixHost 2 (single 0 [7, 8, 9])) 0 = 2
   \<and> range_for (PrefixHost 2 (single 0 [7, 8, 9])) (load (single 0 [7, 8, 9]))
        (For_begin (PrefixHost 2 (single 0 [7, 8, 9])) 0)
        (For_end (PrefixHost 2 (single 0 [7, 8, 9])) 0) = Inr [7, 8, 9]
   \<and> range_for (synthesizing (PrefixHost 2 (single 0 [7, 8, 9]))) (load (single 0 [7, 8, 9]))
        (For_begin (synthesizing (PrefixHost 2 (single 0 [7, 8, 9]))) 0)
        (For_end (synthesizing (PrefixHost 2 (single 0 [7, 8, 9]))) 0) = Inr [7, 8]
   \<and> range_for (PrefixHost 2 (single 0 [7, 8, 9])) (load (single 0 [7, 8, 9]))
        (For_begin (PrefixHost 2 (single 0 [7, 8, 9])) 0)
        (For_end (PrefixHost 2 (single 0 [7, 8, 9])) 0)
      \<noteq> range_for (synthesizing (PrefixHost 2 (single 0 [7, 8, 9]))) (load (single 0 [7, 8, 9]))
        (For_begin (synthesizing (PrefixHost 2 (single 0 [7, 8, 9]))) 0)
        (For_end (synthesizing (PrefixHost 2 (single 0 [7, 8, 9]))) 0)"
proof -
  let ?s = "single 0 [7, 8, 9]"
  let ?P = "PrefixHost 2 ?s"
  have s0: "?s 0 = [7, 8, 9]"
    by (simp add: single_def)
  have m: "member_data ?P = Some ?s"
    by (simp add: PrefixHost_def)
  have l: "Length ?P 0 = 2"
    by (simp add: PrefixHost_def)
  have 1: "range_for ?P (load ?s) (For_begin ?P 0) (For_end ?P 0) = Inr [7, 8, 9]"
    by (simp add: For_native [OF m] native_range_whole s0)
  have f: "\<forall>k < length [7, 8 :: int]. load ?s (subscript (synthesizing ?P) (Ptr 0) (int k))
      = Inr ([7, 8] ! k)"
    by (simp add: synthesizing_simps PrefixHost_def load_def s0 less_Suc_eq)
  have 2: "range_for (synthesizing ?P) (load ?s)
      (For_begin (synthesizing ?P) 0) (For_end (synthesizing ?P) 0) = Inr [7, 8]"
    using f by (intro range_for_synthesized) (simp_all add: synthesizing_simps l)
  show ?thesis
    by (simp only: m l 1 2) simp
qed

section \<open>The scenarios of the specification\<close>

text \<open>
  S1 and S2 on the host \<open>[10, 20, 30, 40]\<close>: the loop reads the four elements, whose sum
  is 100, and the distance is 4; \<open>begin() + 2\<close> refers to 30, \<open>end() - 1\<close> to 40, and
  \<open>(end() - 1) - (begin() + 1)\<close> is 2. S5 on the empty host: \<open>begin() == end()\<close>, the loop
  reads nothing, the distance is 0. (S3 and S6 are the witnesses of C4 and C3.)
\<close>

lemma scenario_S1:
  "range_for (TestHost (single 0 [10, 20, 30, 40])) (load (single 0 [10, 20, 30, 40]))
     (For_begin (TestHost (single 0 [10, 20, 30, 40])) 0)
     (For_end (TestHost (single 0 [10, 20, 30, 40])) 0) = Inr [10, 20, 30, 40]"
  "sum_list [10, 20, 30, 40 :: int] = 100"
  "op_diff (IteratorCore (Ptr (0::nat)) (length_to_int (length [10, 20, 30, 40 :: int])))
     (IteratorCore (Ptr 0) 0) = 4"
proof -
  let ?s = "single 0 [10, 20, 30, 40]"
  have "\<forall>k < length [10, 20, 30, 40 :: int].
      load ?s (subscript (TestHost ?s) (Ptr 0) (int k)) = Inr ([10, 20, 30, 40] ! k)"
    by (simp add: TestHost_def load_single)
  then show "range_for (TestHost ?s) (load ?s) (For_begin (TestHost ?s) 0)
      (For_end (TestHost ?s) 0) = Inr [10, 20, 30, 40]"
    by (intro range_for_synthesized) (simp_all add: TestHost_def single_def)
  show "sum_list [10, 20, 30, 40 :: int] = 100"
    by simp
  show "op_diff (IteratorCore (Ptr (0::nat)) (length_to_int (length [10, 20, 30, 40 :: int])))
     (IteratorCore (Ptr 0) 0) = 4"
    by (simp add: op_diff_def IteratorCore_def length_to_int_def int_to_ptrdiff_def)
qed

lemma scenario_S2:
  "load (single 0 [10, 20, 30, 40])
     (target (op_deref (TestHost (single 0 [10, 20, 30, 40])) (op_add (IteratorCore (Ptr 0) 0) 2)))
     = Inr 30"
  "load (single 0 [10, 20, 30, 40])
     (target (op_deref (TestHost (single 0 [10, 20, 30, 40])) (op_sub (IteratorCore (Ptr 0) 4) 1)))
     = Inr 40"
  "op_diff (op_sub (IteratorCore (Ptr (0::nat)) 4) 1) (op_add (IteratorCore (Ptr 0) 0) 1) = 2"
  by (simp_all add: host_access current_op_add current_op_sub data_op_add data_op_sub
      target_HandledReturn TestHost_def IteratorCore_def load_def single_def op_diff_def
      ptrdiff_to_int_def int_to_ptrdiff_def)

lemma scenario_S5:
  "For_begin (TestHost (single 0 [])) 0 = Synthesized (IteratorCore (Ptr 0) 0)"
  "For_end (TestHost (single 0 [])) 0 = Synthesized (IteratorCore (Ptr 0) 0)"
  "op_eq (IteratorCore (Ptr (0::nat)) 0) (IteratorCore (Ptr 0) 0)"
  "range_for (TestHost (single 0 [])) (load (single 0 []))
     (For_begin (TestHost (single 0 [])) 0) (For_end (TestHost (single 0 [])) 0) = Inr []"
  "op_diff (IteratorCore (Ptr (0::nat)) 0) (IteratorCore (Ptr 0) 0) = 0"
  by (simp_all add: For_begin_def For_end_def TestHost_def single_def length_to_int_0
      op_eq_def core_range_stop op_diff_def int_to_ptrdiff_def)

end
